theory Spec2Isabelle
  imports Main "HOL-Library.Word"
begin

section \<open>Time-offset calculator\<close>

text \<open>
  Dates are epoch milliseconds (\<open>Date.getTime()\<close>) and JavaScript numbers are modelled
  as \<open>int\<close>: every value that reaches these functions is a millisecond count or a whole
  number of seconds, far below \<open>2^53\<close>, where double arithmetic is exact.
\<close>

definition getTimeDifference :: "int \<Rightarrow> int \<Rightarrow> int \<Rightarrow> int" where
  "getTimeDifference date1 date2 delay = date1 - date2 - delay * 1000"

text \<open>JavaScript's \<open>%\<close> on integers: the remainder takes the sign of the dividend.\<close>

definition js_rem :: "int \<Rightarrow> int \<Rightarrow> int" where
  "js_rem a b = (if a < 0 then - ((- a) mod \<bar>b\<bar>) else a mod \<bar>b\<bar>)"

definition digit :: "nat \<Rightarrow> char" where
  "digit n = ''0123456789'' ! n"

fun digits :: "nat \<Rightarrow> string" where
  "digits n = (if n < 10 then [digit n] else digits (n div 10) @ [digit (n mod 10)])"

declare digits.simps [simp del]

text \<open>\<open>Number.prototype.toString()\<close> on an integer.\<close>

definition toString :: "int \<Rightarrow> string" where
  "toString i = (if i < 0 then CHR ''-'' # digits (nat (- i)) else digits (nat i))"

text \<open>\<open>String.prototype.padStart(n, c)\<close> with a one-character filler.\<close>

definition padStart :: "nat \<Rightarrow> char \<Rightarrow> string \<Rightarrow> string" where
  "padStart n c s = replicate (n - length s) c @ s"

text \<open>\<open>Math.floor(x / k)\<close> on integers is \<open>div\<close>, which rounds towards minus infinity.\<close>

definition formatRelativeTime :: "int \<Rightarrow> string" where
  "formatRelativeTime timeDiffMs =
     (let hours = timeDiffMs div 3600000;
          minutes = js_rem timeDiffMs 3600000 div 60000;
          seconds = js_rem timeDiffMs 60000 div 1000;
          hoursStr = toString hours;
          minutesStr = toString minutes;
          secondsStr = toString seconds
      in hoursStr @ ''h'' @ minutesStr @ ''m'' @ secondsStr @ ''s'')"

definition formatRelativeTimeWithPadding :: "int \<Rightarrow> string" where
  "formatRelativeTimeWithPadding timeDiffMs =
     (let hours = timeDiffMs div 3600000;
          minutes = js_rem timeDiffMs 3600000 div 60000;
          seconds = js_rem timeDiffMs 60000 div 1000;
          hoursStr = padStart 2 (CHR ''0'') (toString hours);
          minutesStr = padStart 2 (CHR ''0'') (toString minutes);
          secondsStr = padStart 2 (CHR ''0'') (toString seconds)
      in hoursStr @ '':'' @ minutesStr @ '':'' @ secondsStr)"


section \<open>Sessions and tags\<close>

text \<open>
  \<open>relativeTimestamp\<close> is optional: a record read back from a tag file may lack the
  field; the other fields are taken to be present. The tag files \<open>./tags.<id>.json\<close> are a map from the stream id to the stored
  snapshot; \<open>JSON.stringify\<close> followed by \<open>JSON.parse\<close> is taken to give the fields back.
\<close>

record StreamTag =
  timestamp :: int
  relativeTime :: string
  relativeTimestamp :: "int option"
  moderator :: string
  message :: string

record Stream =
  sid :: string
  startTime :: int
  delay :: int
  vodDelay :: int
  tags :: "StreamTag list"

text \<open>The constructor of \<open>Stream\<close>; it stores \<open>delay\<close> in \<open>vodDelay\<close> too.\<close>

definition new_Stream :: "string \<Rightarrow> int \<Rightarrow> int \<Rightarrow> int \<Rightarrow> StreamTag list \<Rightarrow> Stream" where
  "new_Stream i st d vd tg = \<lparr>sid = i, startTime = st, delay = d, vodDelay = d, tags = tg\<rparr>"

type_synonym tag_files = "string \<rightharpoonup> Stream"

text \<open>
  What a handler does besides changing the state, in the order in which it happens: a
  reply to the chat, a call of \<open>warnError\<close> with the text of the error, and a promise that
  is rejected while no handler is attached to it.
\<close>

datatype effect = ChatReply string | WarnError string | UnhandledRejection

text \<open>
  \<open>saveStream\<close>: \<open>fs\<close> is \<open>fs/promises\<close>, so \<open>fs.writeFile\<close> returns a promise, and
  that promise is neither awaited nor given a handler. The \<open>try\<close> block ends when the
  write has been started; its \<open>catch\<close> clause, with the call of \<open>warnError\<close>, sees no
  failure of the write. \<open>disk_ok\<close> says whether the write succeeds; a write that fails
  leaves the file as it was and a rejected promise without a handler.
\<close>

definition saveStream :: "bool \<Rightarrow> Stream \<Rightarrow> tag_files \<Rightarrow> effect list \<times> tag_files" where
  "saveStream disk_ok s files =
     (if disk_ok then ([], files(sid s \<mapsto> s)) else ([UnhandledRejection], files))"

definition loadStream :: "tag_files \<Rightarrow> string \<Rightarrow> Stream option" where
  "loadStream files i = files i"

definition getStoredStreamOrNew :: "tag_files \<Rightarrow> int \<Rightarrow> string \<Rightarrow> int \<Rightarrow> Stream" where
  "getStoredStreamOrNew files globalDelay i startDate =
     (case loadStream files i of
        Some storedStream \<Rightarrow> storedStream
      | None \<Rightarrow> new_Stream i startDate globalDelay 0 [])"

text \<open>The part of \<open>TwitchBot\<close> the session claims are about, with the tag files.\<close>

record TwitchBot =
  stream :: "Stream option"
  tagFiles :: tag_files

text \<open>
  The start-up path of \<open>initializeBot\<close>: \<open>currentStream\<close> is the answer of
  \<open>getStreamByUserName\<close> (\<open>Inl ()\<close> when the call throws, which is only reported).
\<close>

definition initializeBot_stream ::
  "int \<Rightarrow> unit + (string \<times> int) option \<Rightarrow> TwitchBot \<Rightarrow> TwitchBot" where
  "initializeBot_stream globalDelay currentStream b =
     (case currentStream of
        Inl _ \<Rightarrow> b
      | Inr None \<Rightarrow> b
      | Inr (Some (cid, startDate)) \<Rightarrow>
          b\<lparr>stream := Some (getStoredStreamOrNew (tagFiles b) globalDelay cid startDate)\<rparr>)"

text \<open>
  The \<open>onStreamOnline\<close> and \<open>onStreamOffline\<close> handlers. The first writes the tag
  file the way \<open>saveStream\<close> does, with a promise that is not awaited.
\<close>

definition onStreamOnline ::
  "int \<Rightarrow> bool \<Rightarrow> string \<Rightarrow> int \<Rightarrow> TwitchBot \<Rightarrow> effect list \<times> TwitchBot" where
  "onStreamOnline globalDelay disk_ok event_id event_startDate b =
     (let s = new_Stream event_id event_startDate globalDelay 0 []
      in if disk_ok then ([], b\<lparr>stream := Some s, tagFiles := (tagFiles b)(sid s \<mapsto> s)\<rparr>)
         else ([UnhandledRejection], b\<lparr>stream := Some s\<rparr>))"

definition onStreamOffline :: "TwitchBot \<Rightarrow> TwitchBot" where
  "onStreamOffline b = b\<lparr>stream := None\<rparr>"

text \<open>\<open>Array.prototype.join\<close>.\<close>

fun join :: "string \<Rightarrow> string list \<Rightarrow> string" where
  "join sep [] = []"
| "join sep [x] = x"
| "join sep (x # y # ys) = x @ sep @ join sep (y # ys)"

text \<open>
  The handler of the \<open>tag\<close> chat command: what it does and the new state. \<open>now\<close> is
  \<open>new Date()\<close>, \<open>userName\<close> is \<open>msg.userInfo.userName\<close>. The reply is sent before
  the write that \<open>saveStream\<close> started can fail.
\<close>

definition tagCommand ::
  "int \<Rightarrow> bool \<Rightarrow> int \<Rightarrow> string \<Rightarrow> string list \<Rightarrow> TwitchBot \<Rightarrow> effect list \<times> TwitchBot" where
  "tagCommand globalDelay disk_ok now userName params b =
     (case stream b of
        None \<Rightarrow>
          ([WarnError ''Error: New tag attempted but there is no stream'',
            ChatReply ''Error: No hay stream''], b)
      | Some s \<Rightarrow>
          (let timeDiff = getTimeDifference now (startTime s) globalDelay;
               relTime = formatRelativeTime timeDiff;
               tag = \<lparr>timestamp = now, relativeTime = relTime,
                      relativeTimestamp = Some timeDiff, moderator = userName,
                      message = join '' '' params\<rparr>;
               s' = s\<lparr>tags := tags s @ [tag]\<rparr>;
               saved = saveStream disk_ok s' (tagFiles b)
           in (ChatReply (''Se ha creado el tag en el minuto '' @ relTime) # fst saved,
               b\<lparr>stream := Some s', tagFiles := snd saved\<rparr>)))"

definition getActiveStream :: "TwitchBot \<Rightarrow> Stream option" where
  "getActiveStream b = stream b"

section \<open>Export commands\<close>

text \<open>
  \<open>HelixVideo\<close> is the provider's video object; \<open>vods\<close> is the provider's lookup
  (\<open>getTwitchVodFromId\<close> answers \<open>null\<close> both for an unknown id and for a failed call).
  A reply is a text or one attached file.
\<close>

record HelixVideo =
  vid :: string
  streamId :: "string option"
  url :: string

datatype Reply = Text string | Files string

text \<open>
  \<open>!x\<close> holds for an optional string that is missing or empty, and for an optional
  number that is missing or 0; the tests below are written as the two cases.
\<close>

definition twitchLine :: "HelixVideo \<Rightarrow> nat \<times> StreamTag \<Rightarrow> string" where
  "twitchLine vod it =
     (case it of (index, tag) \<Rightarrow>
        toString (int index + 1) @ '' - [`'' @ relativeTime tag @ ''`](<'' @ url vod @ ''?t=''
          @ relativeTime tag @ ''>) : '' @ message tag @ ''\<newline>'')"

definition tagstwitch_execute :: "(string \<rightharpoonup> HelixVideo) \<Rightarrow> tag_files \<Rightarrow> string \<Rightarrow> Reply" where
  "tagstwitch_execute vods files vodid =
     (if vodid = [] then Text ''Tienes que incluir el id del vod!''
      else case vods vodid of
        None \<Rightarrow> Text ''Ese vod no existe''
      | Some vod \<Rightarrow>
          (case streamId vod of
             None \<Rightarrow> Text ''Ese vod no pertenece a un stream.''
           | Some streamId' \<Rightarrow>
               if streamId' = [] then Text ''Ese vod no pertenece a un stream.''
               else case loadStream files streamId' of
                 None \<Rightarrow> Text ''No se encontraron tags para ese vod.''
               | Some strm \<Rightarrow>
                   (let mappedTags = map (twitchLine vod) (enumerate 0 (tags strm))
                    in Text (''Tags del stream ('' @ toString (int (length (tags strm)))
                             @ ''):\<newline> > '' @ join '','' mappedTags))))"

text \<open>
  The value of \<open>tag.relativeTimestamp\<close> once the \<open>if (!tag.relativeTimestamp)\<close> of
  the subtitle export has run.
\<close>

definition backfill :: "Stream \<Rightarrow> StreamTag \<Rightarrow> int" where
  "backfill strm tag =
     (case relativeTimestamp tag of
        None \<Rightarrow> getTimeDifference (timestamp tag) (startTime strm) 0
      | Some cached \<Rightarrow>
          if cached = 0 then getTimeDifference (timestamp tag) (startTime strm) 0
          else cached)"

definition srtCue :: "Stream \<Rightarrow> nat \<times> StreamTag \<Rightarrow> string" where
  "srtCue strm it =
     (case it of (index, tag) \<Rightarrow>
        (let ts = backfill strm tag
         in toString (int index + 1) @ ''\<newline>'' @ formatRelativeTimeWithPadding ts
            @ '',000 --> '' @ formatRelativeTimeWithPadding (ts + 15000) @ '',000\<newline>''
            @ message tag @ ''\<newline>\<newline>''))"

definition tagssrt_execute :: "(string \<rightharpoonup> HelixVideo) \<Rightarrow> tag_files \<Rightarrow> string \<Rightarrow> Reply" where
  "tagssrt_execute vods files vodid =
     (if vodid = [] then Text ''Tienes que incluir el id del vod!''
      else case vods vodid of
        None \<Rightarrow> Text ''Ese vod no existe''
      | Some vod \<Rightarrow>
          (case streamId vod of
             None \<Rightarrow> Text ''Ese vod no pertenece a un stream.''
           | Some streamId' \<Rightarrow>
               if streamId' = [] then Text ''Ese vod no pertenece a un stream.''
               else case loadStream files streamId' of
                 None \<Rightarrow> Text ''No se encontraron tags para ese vod.''
               | Some strm \<Rightarrow>
                   if length (tags strm) = 0 then Text ''El stream no tiene tags.''
                   else (let mappedTags = map (srtCue strm) (enumerate 0 (tags strm))
                         in Files (join '','' mappedTags))))"

section \<open>Strings, UTF-8 and hexadecimal\<close>

text \<open>
  The credential code turns strings into bytes and back, so its strings are modelled as
  JavaScript has them, sequences of 16-bit code units, and its buffers as sequences of
  bytes. \<open>js\<close> writes an ASCII literal as such a string.
\<close>

type_synonym byte = "8 word"
type_synonym bytes = "byte list"
type_synonym jsstring = "16 word list"

definition js :: "string \<Rightarrow> jsstring" where
  "js s = map of_char s"

text \<open>
  The \<open>'utf8'\<close> encoding of the runtime, on the numeric values of the code units: a high
  surrogate followed by a low one is one code point of four bytes, any other surrogate is
  written as U+FFFD (\<open>EF BF BD\<close>).
\<close>

definition is_high :: "nat \<Rightarrow> bool" where
  "is_high c = (0xD800 \<le> c \<and> c < 0xDC00)"

definition is_low :: "nat \<Rightarrow> bool" where
  "is_low c = (0xDC00 \<le> c \<and> c < 0xE000)"

definition utf8_unit :: "nat \<Rightarrow> nat list" where
  "utf8_unit c =
     (if c < 0x80 then [c]
      else if c < 0x800 then [0xC0 + c div 64, 0x80 + c mod 64]
      else if is_high c \<or> is_low c then [0xEF, 0xBF, 0xBD]
      else [0xE0 + c div 4096, 0x80 + c div 64 mod 64, 0x80 + c mod 64])"

definition utf8_pair :: "nat \<Rightarrow> nat \<Rightarrow> nat list" where
  "utf8_pair c d =
     (let cp = 0x10000 + (c - 0xD800) * 0x400 + (d - 0xDC00)
      in [0xF0 + cp div 262144, 0x80 + cp div 4096 mod 64, 0x80 + cp div 64 mod 64,
          0x80 + cp mod 64])"

fun utf8_units :: "nat list \<Rightarrow> nat list" where
  "utf8_units [] = []"
| "utf8_units [c] = utf8_unit c"
| "utf8_units (c # d # ds) =
     (if is_high c \<and> is_low d then utf8_pair c d @ utf8_units ds
      else utf8_unit c @ utf8_units (d # ds))"

text \<open>
  The \<open>'utf8'\<close> decoding of the runtime. \<open>utf8_step b0 bs\<close> reads the sequence that
  starts with the byte \<open>b0\<close>: the code units it stands for and how many bytes of \<open>bs\<close>
  belong to it. An ill-formed sequence gives U+FFFD and ends before the first byte that
  cannot continue it.
\<close>

definition cont :: "nat \<Rightarrow> bool" where
  "cont b = (0x80 \<le> b \<and> b < 0xC0)"

definition second3 :: "nat \<Rightarrow> nat \<Rightarrow> bool" where
  "second3 b0 b1 =
     (if b0 = 0xE0 then 0xA0 \<le> b1 \<and> b1 < 0xC0
      else if b0 = 0xED then 0x80 \<le> b1 \<and> b1 < 0xA0
      else cont b1)"

definition second4 :: "nat \<Rightarrow> nat \<Rightarrow> bool" where
  "second4 b0 b1 =
     (if b0 = 0xF0 then 0x90 \<le> b1 \<and> b1 < 0xC0
      else if b0 = 0xF4 then 0x80 \<le> b1 \<and> b1 < 0x90
      else cont b1)"

definition surrogates :: "nat \<Rightarrow> nat list" where
  "surrogates cp = [0xD800 + (cp - 0x10000) div 0x400, 0xDC00 + (cp - 0x10000) mod 0x400]"

definition utf8_step :: "nat \<Rightarrow> nat list \<Rightarrow> nat list \<times> nat" where
  "utf8_step b0 bs =
     (if b0 < 0x80 then ([b0], 0)
      else if 0xC2 \<le> b0 \<and> b0 < 0xE0 then
        (case bs of
           b1 # _ \<Rightarrow>
             if cont b1 then ([(b0 - 0xC0) * 64 + (b1 - 0x80)], 1) else ([0xFFFD], 0)
         | _ \<Rightarrow> ([0xFFFD], 0))
      else if 0xE0 \<le> b0 \<and> b0 < 0xF0 then
        (case bs of
           b1 # b2 # _ \<Rightarrow>
             if \<not> second3 b0 b1 then ([0xFFFD], 0)
             else if cont b2
               then ([(b0 - 0xE0) * 4096 + (b1 - 0x80) * 64 + (b2 - 0x80)], 2)
               else ([0xFFFD], 1)
         | [b1] \<Rightarrow> if second3 b0 b1 then ([0xFFFD], 1) else ([0xFFFD], 0)
         | _ \<Rightarrow> ([0xFFFD], 0))
      else if 0xF0 \<le> b0 \<and> b0 < 0xF5 then
        (case bs of
           b1 # b2 # b3 # _ \<Rightarrow>
             if \<not> second4 b0 b1 then ([0xFFFD], 0)
             else if \<not> cont b2 then ([0xFFFD], 1)
             else if cont b3
               then (surrogates ((b0 - 0xF0) * 262144 + (b1 - 0x80) * 4096
                                  + (b2 - 0x80) * 64 + (b3 - 0x80)), 3)
               else ([0xFFFD], 2)
         | [b1, b2] \<Rightarrow>
             if \<not> second4 b0 b1 then ([0xFFFD], 0)
             else if cont b2 then ([0xFFFD], 2) else ([0xFFFD], 1)
         | [b1] \<Rightarrow> if second4 b0 b1 then ([0xFFFD], 1) else ([0xFFFD], 0)
         | _ \<Rightarrow> ([0xFFFD], 0))
      else ([0xFFFD], 0))"

fun utf16_units :: "nat list \<Rightarrow> nat list" where
  "utf16_units [] = []"
| "utf16_units (b0 # bs) =
     (case utf8_step b0 bs of (out, k) \<Rightarrow> out @ utf16_units (drop k bs))"

definition utf8_encode :: "jsstring \<Rightarrow> bytes" where
  "utf8_encode s = map of_nat (utf8_units (map unat s))"

definition utf8_decode :: "bytes \<Rightarrow> jsstring" where
  "utf8_decode bs = map of_nat (utf16_units (map unat bs))"

text \<open>A string is well formed when every surrogate in it is part of a pair.\<close>

fun well_formed_units :: "nat list \<Rightarrow> bool" where
  "well_formed_units [] = True"
| "well_formed_units [c] = (\<not> is_high c \<and> \<not> is_low c)"
| "well_formed_units (c # d # ds) =
     (if is_high c \<and> is_low d then well_formed_units ds
      else \<not> is_high c \<and> \<not> is_low c \<and> well_formed_units (d # ds))"

definition well_formed :: "jsstring \<Rightarrow> bool" where
  "well_formed s = well_formed_units (map unat s)"

text \<open>
  \<open>buf.toString('hex')\<close> and \<open>Buffer.from(s, 'hex')\<close>; the latter stops at the first
  pair of characters that is not two hexadecimal digits.
\<close>

definition hexdigit :: "nat \<Rightarrow> 16 word" where
  "hexdigit n = of_char (''0123456789abcdef'' ! n)"

definition hexval :: "16 word \<Rightarrow> nat option" where
  "hexval c =
     (let n = unat c
      in if 48 \<le> n \<and> n \<le> 57 then Some (n - 48)
         else if 97 \<le> n \<and> n \<le> 102 then Some (n - 87)
         else if 65 \<le> n \<and> n \<le> 70 then Some (n - 55)
         else None)"

definition toHex :: "bytes \<Rightarrow> jsstring" where
  "toHex bs = concat (map (\<lambda>b. [hexdigit (unat b div 16), hexdigit (unat b mod 16)]) bs)"

fun fromHex :: "jsstring \<Rightarrow> bytes" where
  "fromHex (a # b # r) =
     (case (hexval a, hexval b) of
        (Some x, Some y) \<Rightarrow> of_nat (16 * x + y) # fromHex r
      | _ \<Rightarrow> [])"
| "fromHex _ = []"

text \<open>\<open>s.slice(-n)\<close> and \<open>s.slice(0, -n)\<close>.\<close>

definition slice_last :: "nat \<Rightarrow> 'a list \<Rightarrow> 'a list" where
  "slice_last n s = drop (length s - n) s"

definition slice_init :: "nat \<Rightarrow> 'a list \<Rightarrow> 'a list" where
  "slice_init n s = take (length s - n) s"

section \<open>Credential store\<close>

text \<open>
  The \<open>crypto\<close> module is not part of the repository and is a parameter of the model:
  \<open>scryptSync\<close> is the key derivation \<open>scryptSync(password, 'salt', 32)\<close>; \<open>gcm_seal\<close>
  is \<open>aes-256-gcm\<close> encryption, from key, IV and plaintext to the ciphertext and the
  authentication tag; \<open>gcm_open\<close> is the decryption, from key, IV, ciphertext and tag,
  with \<open>None\<close> where \<open>createDecipheriv\<close>, \<open>setAuthTag\<close> or \<open>final\<close> throws.
  \<open>gcm_correct\<close> and \<open>gcm_binds_iv\<close> are what the results below ask of it: a tag has
  16 bytes and decryption under the key and IV of the encryption gives the plaintext
  back; decryption under another IV is rejected.
\<close>

record crypto_lib =
  scryptSync :: "jsstring \<Rightarrow> bytes"
  gcm_seal :: "bytes \<Rightarrow> bytes \<Rightarrow> bytes \<Rightarrow> bytes \<times> bytes"
  gcm_open :: "bytes \<Rightarrow> bytes \<Rightarrow> bytes \<Rightarrow> bytes \<Rightarrow> bytes option"

definition gcm_correct :: "crypto_lib \<Rightarrow> bool" where
  "gcm_correct lib =
     (\<forall>key nonce plain. length nonce = 16 \<longrightarrow>
        length (snd (gcm_seal lib key nonce plain)) = 16 \<and>
        gcm_open lib key nonce (fst (gcm_seal lib key nonce plain))
          (snd (gcm_seal lib key nonce plain)) = Some plain)"

definition gcm_binds_iv :: "crypto_lib \<Rightarrow> bool" where
  "gcm_binds_iv lib =
     (\<forall>key nonce nonce' plain. length nonce = 16 \<and> length nonce' = 16 \<and> nonce \<noteq> nonce' \<longrightarrow>
        gcm_open lib key nonce' (fst (gcm_seal lib key nonce plain))
          (snd (gcm_seal lib key nonce plain)) = None)"

datatype error = DecryptionFailed | PersistenceFailed

text \<open>
  \<open>TokenEncryption\<close>: the object is its key. \<open>encrypt\<close> gives the pair of its result,
  \<open>encrypted\<close> and \<open>iv\<close>; \<open>random16\<close> is what \<open>crypto.randomBytes(16)\<close> returns in the
  call.
\<close>

definition new_TokenEncryption :: "crypto_lib \<Rightarrow> jsstring \<Rightarrow> bytes" where
  "new_TokenEncryption lib encryptionKey = scryptSync lib encryptionKey"

definition encrypt :: "crypto_lib \<Rightarrow> bytes \<Rightarrow> bytes \<Rightarrow> jsstring \<Rightarrow> jsstring \<times> jsstring" where
  "encrypt lib key random16 text =
     (case gcm_seal lib key random16 (utf8_encode text) of
        (encrypted, authTag) \<Rightarrow> (toHex encrypted @ toHex authTag, toHex random16))"

definition decrypt :: "crypto_lib \<Rightarrow> bytes \<Rightarrow> jsstring \<Rightarrow> jsstring \<Rightarrow> error + jsstring" where
  "decrypt lib key encrypted ivHex =
     (let authTag = fromHex (slice_last 32 encrypted);
          encryptedText = slice_init 32 encrypted
      in case gcm_open lib key (fromHex ivHex) (fromHex encryptedText) authTag of
           None \<Rightarrow> Inl DecryptionFailed
         | Some plain \<Rightarrow> Inr (utf8_decode plain))"

record EncryptedTokens =
  iv :: jsstring
  accessToken :: jsstring
  refreshToken :: jsstring
  expiresAt :: int

record TokenResponse =
  access_token :: jsstring
  refresh_token :: jsstring
  expires_in :: int

section \<open>Credential refresh scheduler\<close>

text \<open>
  The state of \<open>TwitchApiClient\<close>: \<open>config_refreshToken\<close> is \<open>config.refreshToken\<close>,
  \<open>tokenRefreshTimeout\<close> is the interval of the pending timer, if there is one,
  \<open>tokenEncryption\<close> is the key of the \<open>TokenEncryption\<close> object, \<open>tokenStorage\<close> is
  what the token file holds (\<open>None\<close> when \<open>load\<close> answers \<open>null\<close>), and \<open>notified\<close>
  lists the calls made to the token refresh handlers, which are taken not to throw.
\<close>

record TwitchApiClient =
  currentToken :: jsstring
  config_refreshToken :: jsstring
  tokenRefreshInterval :: int
  tokenRefreshTimeout :: "int option"
  tokenEncryption :: bytes
  tokenStorage :: "EncryptedTokens option"
  isConnected :: bool
  notified :: "(jsstring \<times> jsstring) list"

text \<open>
  What one call of \<open>refreshToken\<close> meets: the answer of the identity provider
  (\<open>None\<close> when the request fails or is refused), \<open>Date.now()\<close>, the three results of
  \<open>crypto.randomBytes(16)\<close> in the order of the calls, whether the token file can be
  written, and whether the client disconnects and connects again without an error.
\<close>

record refresh_run =
  response :: "TokenResponse option"
  clock :: int
  random :: "bytes \<times> bytes \<times> bytes"
  save_ok :: bool
  connect_ok :: bool

definition TwitchApiClient_saveTokens ::
  "crypto_lib \<Rightarrow> int \<Rightarrow> bytes \<times> bytes \<times> bytes \<Rightarrow> bool \<Rightarrow> jsstring \<Rightarrow> jsstring \<Rightarrow> int
     \<Rightarrow> TwitchApiClient \<Rightarrow> error + TwitchApiClient" where
  "TwitchApiClient_saveTokens lib now rnd ok accessTok refreshTok expiresIn c =
     (case rnd of (r0, r1, r2) \<Rightarrow>
        (let ivHex = toHex r0;
             encryptedAccess = encrypt lib (tokenEncryption c) r1 accessTok;
             encryptedRefresh = encrypt lib (tokenEncryption c) r2 refreshTok;
             tokens = \<lparr>iv = ivHex, accessToken = fst encryptedAccess,
                       refreshToken = fst encryptedRefresh,
                       expiresAt = now + expiresIn * 1000\<rparr>
         in if ok then Inr (c\<lparr>tokenStorage := Some tokens\<rparr>) else Inl PersistenceFailed))"

definition scheduleTokenRefresh :: "int option \<Rightarrow> TwitchApiClient \<Rightarrow> TwitchApiClient" where
  "scheduleTokenRefresh interval c =
     c\<lparr>tokenRefreshTimeout :=
         Some (case interval of Some ms \<Rightarrow> ms | None \<Rightarrow> tokenRefreshInterval c)\<rparr>"

text \<open>
  \<open>reconnectWithNewToken\<close> catches its own errors; \<open>disconnect\<close> clears the pending
  timer on its way.
\<close>

definition reconnectWithNewToken :: "bool \<Rightarrow> TwitchApiClient \<Rightarrow> TwitchApiClient" where
  "reconnectWithNewToken ok c = c\<lparr>tokenRefreshTimeout := None, isConnected := ok\<rparr>"

definition TwitchApiClient_refreshToken ::
  "crypto_lib \<Rightarrow> refresh_run \<Rightarrow> TwitchApiClient \<Rightarrow> TwitchApiClient" where
  "TwitchApiClient_refreshToken lib run c =
     (case response run of
        None \<Rightarrow> scheduleTokenRefresh (Some 60000) c
      | Some data \<Rightarrow>
          (let c1 = c\<lparr>currentToken := access_token data,
                      config_refreshToken := refresh_token data\<rparr>
           in case TwitchApiClient_saveTokens lib (clock run) (random run) (save_ok run)
                     (access_token data) (refresh_token data) (expires_in data) c1 of
                Inl _ \<Rightarrow> scheduleTokenRefresh (Some 60000) c1
              | Inr c2 \<Rightarrow>
                  (let c3 = c2\<lparr>notified := notified c2 @ [(access_token data, refresh_token data)]\<rparr>;
                       c4 = reconnectWithNewToken (connect_ok run) c3;
                       refreshIn = (expires_in data - 300) * 1000
                   in scheduleTokenRefresh (Some refreshIn) c4)))"

definition initializeTokens ::
  "crypto_lib \<Rightarrow> int \<Rightarrow> refresh_run \<Rightarrow> TwitchApiClient \<Rightarrow> TwitchApiClient" where
  "initializeTokens lib now run c =
     (case tokenStorage c of
        None \<Rightarrow> c
      | Some storedTokens \<Rightarrow>
          (case decrypt lib (tokenEncryption c) (accessToken storedTokens) (iv storedTokens) of
             Inl _ \<Rightarrow> c
           | Inr accessTok \<Rightarrow>
               (case decrypt lib (tokenEncryption c) (refreshToken storedTokens)
                       (iv storedTokens) of
                  Inl _ \<Rightarrow> c
                | Inr refreshTok \<Rightarrow>
                    if now < expiresAt storedTokens
                    then c\<lparr>currentToken := accessTok, config_refreshToken := refreshTok\<rparr>
                    else TwitchApiClient_refreshToken lib run c)))"

text \<open>
  The constructor, with the part of \<open>TwitchConfig\<close> that the credential code reads:
  \<open>file\<close> is what the token file holds when the process starts, \<open>ok\<close> whether
  \<open>connect\<close> succeeds. Once \<open>initializeTokens\<close> is done the constructor calls
  \<open>scheduleTokenRefresh\<close> with no interval.
\<close>

record TwitchConfig =
  cfg_token :: jsstring
  cfg_refreshToken :: jsstring
  cfg_tokenRefreshInterval :: "int option"
  cfg_encryptionKey :: jsstring

definition new_TwitchApiClient ::
  "crypto_lib \<Rightarrow> TwitchConfig \<Rightarrow> EncryptedTokens option \<Rightarrow> int \<Rightarrow> refresh_run \<Rightarrow> bool
     \<Rightarrow> TwitchApiClient" where
  "new_TwitchApiClient lib config file now run ok =
     (let c = \<lparr>currentToken = cfg_token config,
               config_refreshToken = cfg_refreshToken config,
               tokenRefreshInterval =
                 (case cfg_tokenRefreshInterval config of Some ms \<Rightarrow> ms | None \<Rightarrow> 3600000),
               tokenRefreshTimeout = None,
               tokenEncryption = new_TokenEncryption lib (cfg_encryptionKey config),
               tokenStorage = file, isConnected = False, notified = []\<rparr>;
          c1 = initializeTokens lib now run c;
          c2 = c1\<lparr>isConnected := ok\<rparr>
      in scheduleTokenRefresh None c2)"

text \<open>
  \<open>rotateEncryptionKey\<close> lets an error of \<open>saveTokens\<close> pass to its caller: the result
  is that error, if any, and the state. Its \<open>expiresIn\<close> is the refresh interval in
  seconds, a whole number for the default interval and any interval of whole seconds.
\<close>

definition rotateEncryptionKey ::
  "crypto_lib \<Rightarrow> int \<Rightarrow> bytes \<times> bytes \<times> bytes \<Rightarrow> bool \<Rightarrow> jsstring \<Rightarrow> TwitchApiClient
     \<Rightarrow> error option \<times> TwitchApiClient" where
  "rotateEncryptionKey lib now rnd ok newKey c =
     (let c1 = c\<lparr>tokenEncryption := new_TokenEncryption lib newKey\<rparr>
      in case TwitchApiClient_saveTokens lib now rnd ok (currentToken c1)
                (config_refreshToken c1) (tokenRefreshInterval c1 div 1000) c1 of
           Inl e \<Rightarrow> (Some e, c1)
         | Inr c2 \<Rightarrow> (None, c2))"

text \<open>
  \<open>TwitchBot.saveTokens\<close> and \<open>loadTokens\<close>: the token data of the authentication
  library, written to \<open>tokens.json\<close> and read back; the argument and result of type
  \<open>AccessToken option\<close> are what the file holds.
\<close>

record AccessToken =
  tw_accessToken :: jsstring
  tw_refreshToken :: "jsstring option"
  tw_expiresIn :: "int option"
  tw_obtainmentTimestamp :: int

definition TwitchBot_saveTokens ::
  "bool \<Rightarrow> AccessToken \<Rightarrow> AccessToken option \<Rightarrow> error + AccessToken option" where
  "TwitchBot_saveTokens ok tokenData tokensJson =
     (if ok then Inr (Some tokenData) else Inl PersistenceFailed)"

definition TwitchBot_loadTokens :: "AccessToken option \<Rightarrow> AccessToken option" where
  "TwitchBot_loadTokens tokensJson = tokensJson"

text \<open>
  A token file holds only ciphertext when both token fields of its record are results
  of \<open>encrypt\<close>.
\<close>

definition only_ciphertext :: "crypto_lib \<Rightarrow> EncryptedTokens option \<Rightarrow> bool" where
  "only_ciphertext lib file =
     (case file of
        None \<Rightarrow> True
      | Some tokens \<Rightarrow>
          (\<exists>key r1 r2 a b. accessToken tokens = fst (encrypt lib key r1 a)
                          \<and> refreshToken tokens = fst (encrypt lib key r2 b)))"

section \<open>An instance of the library and of a client, for the examples\<close>

text \<open>
  A small cipher that satisfies \<open>gcm_correct\<close> and \<open>gcm_binds_iv\<close>: it adds a byte
  derived from the key to every byte of the plaintext and takes the masked IV as the tag.
  It stands in for the library in the closed examples only.
\<close>

definition ref_mask :: "bytes \<Rightarrow> byte" where
  "ref_mask key = foldr (+) key 0"

definition ref_tag :: "bytes \<Rightarrow> bytes \<Rightarrow> bytes" where
  "ref_tag key nonce = take 16 (map (\<lambda>b. b + ref_mask key) nonce @ replicate 16 0)"

definition ref_lib :: crypto_lib where
  "ref_lib =
     \<lparr>scryptSync = (\<lambda>password. take 32 (map ucast password @ replicate 32 0)),
      gcm_seal = (\<lambda>key nonce plain. (map (\<lambda>b. b + ref_mask key) plain, ref_tag key nonce)),
      gcm_open = (\<lambda>key nonce ct tag.
                    if tag = ref_tag key nonce then Some (map (\<lambda>b. b - ref_mask key) ct)
                    else None)\<rparr>"

definition client0 :: TwitchApiClient where
  "client0 = \<lparr>currentToken = js ''initial'', config_refreshToken = js ''initial-refresh'',
              tokenRefreshInterval = 3600000, tokenRefreshTimeout = None,
              tokenEncryption = new_TokenEncryption ref_lib (js ''secret''),
              tokenStorage = None, isConnected = True, notified = []\<rparr>"

definition config0 :: TwitchConfig where
  "config0 = \<lparr>cfg_token = js ''initial'', cfg_refreshToken = js ''initial-refresh'',
              cfg_tokenRefreshInterval = None, cfg_encryptionKey = js ''secret''\<rparr>"

definition draws0 :: "bytes \<times> bytes \<times> bytes" where
  "draws0 = (replicate 16 1, replicate 16 2, replicate 16 3)"

definition run0 :: "int \<Rightarrow> refresh_run" where
  "run0 e = \<lparr>response = Some \<lparr>access_token = js ''access-1'', refresh_token = js ''refresh-1'',
                               expires_in = e\<rparr>,
             clock = 0, random = draws0, save_ok = True, connect_ok = True\<rparr>"

section \<open>The time-offset calculator: results\<close>



lemma minutes_range:
  fixes d :: int
  shows "0 \<le> d mod 3600000 div 60000" and "d mod 3600000 div 60000 < 60"
proof -
  have "0 \<le> d mod 3600000" and "d mod 3600000 < 3600000" by simp_all
  then show "0 \<le> d mod 3600000 div 60000" and "d mod 3600000 div 60000 < 60"
    by (simp_all add: pos_imp_zdiv_nonneg_iff zdiv_mono1 div_less_iff_less_mult)
qed

lemma seconds_range:
  fixes d :: int
  shows "0 \<le> d mod 60000 div 1000" and "d mod 60000 div 1000 < 60"
proof -
  have "0 \<le> d mod 60000" and "d mod 60000 < 60000" by simp_all
  then show "0 \<le> d mod 60000 div 1000" and "d mod 60000 div 1000 < 60"
    by (simp_all add: pos_imp_zdiv_nonneg_iff div_less_iff_less_mult)
qed



lemma length_digits_pos: "0 < length (digits n)"
  by (subst digits.simps) simp











lemma format_85000:
  "formatRelativeTime 85000 = ''0h1m25s''" "formatRelativeTimeWithPadding 85000 = ''00:01:25''"
  by code_simp code_simp

text \<open>
  C4. The elapsed time of an event is \<open>eventTime - sessionStart - delaySeconds * 1000\<close>
  milliseconds and is not clamped: an event before the compensated start has a negative
  elapsed time. An event at the start with no delay has elapsed time 0, and a larger
  delay gives a strictly smaller elapsed time.
\<close>

theorem getTimeDifference_linear:
  "getTimeDifference eventTime sessionStart delaySeconds
     = eventTime - sessionStart - delaySeconds * 1000
   \<and> (eventTime < sessionStart + delaySeconds * 1000
        \<longrightarrow> getTimeDifference eventTime sessionStart delaySeconds < 0)
   \<and> getTimeDifference sessionStart sessionStart 0 = 0
   \<and> (d1 < d2 \<longrightarrow> getTimeDifference eventTime sessionStart d2
                    < getTimeDifference eventTime sessionStart d1)"
  by (simp add: getTimeDifference_def)

theorem getTimeDifference_linear_witness:
  "(1000::int) < 5000 + 15 * 1000 \<and> getTimeDifference 1000 5000 15 = - 19000
   \<and> getTimeDifference 5000 5000 0 = 0
   \<and> (15::int) < 20 \<and> getTimeDifference 1000 5000 20 < getTimeDifference 1000 5000 15"
  using getTimeDifference_linear [of 1000 5000 15 15 20] by simp




section \<open>Sessions, tags and exports: results\<close>

lemma onStreamOnline_stream:
  "stream (snd (onStreamOnline globalDelay disk_ok event_id event_startDate b))
     = Some (new_Stream event_id event_startDate globalDelay 0 [])"
  by (simp add: onStreamOnline_def Let_def)

lemma backfill_cases:
  "backfill strm tag =
     (if relativeTimestamp tag = None \<or> relativeTimestamp tag = Some 0
      then getTimeDifference (timestamp tag) (startTime strm) 0
      else the (relativeTimestamp tag))"
  by (simp add: backfill_def split: option.splits)

text \<open>
  What the \<open>tag\<close> command does in every case: the error reply and no change without an
  active session; otherwise the offset from \<open>getTimeDifference\<close>, the tag appended and
  the reply, the tag file updated when the write succeeds and left as it was, with a
  rejected promise and no call of \<open>warnError\<close>, when it fails.
\<close>

lemma tagCommand_no_stream:
  "stream b = None \<Longrightarrow>
     tagCommand globalDelay disk_ok now userName params b
       = ([WarnError ''Error: New tag attempted but there is no stream'',
           ChatReply ''Error: No hay stream''], b)"
  by (simp add: tagCommand_def)

lemma tagCommand_active:
  "stream b = Some s \<Longrightarrow>
     (let offset = getTimeDifference now (startTime s) globalDelay;
          s' = s\<lparr>tags := tags s @
                 [\<lparr>timestamp = now, relativeTime = formatRelativeTime offset,
                   relativeTimestamp = Some offset, moderator = userName,
                   message = join '' '' params\<rparr>]\<rparr>
      in tagCommand globalDelay True now userName params b
           = ([ChatReply (''Se ha creado el tag en el minuto '' @ formatRelativeTime offset)],
              b\<lparr>stream := Some s', tagFiles := (tagFiles b)(sid s \<mapsto> s')\<rparr>)
         \<and> tagCommand globalDelay False now userName params b
           = ([ChatReply (''Se ha creado el tag en el minuto '' @ formatRelativeTime offset),
               UnhandledRejection],
              b\<lparr>stream := Some s'\<rparr>))"
  by (simp add: tagCommand_def Let_def saveStream_def)

text \<open>
  C1. On a went-live signal the stored record of the new session id should be looked up
  and resumed, keeping its tags and its start time, and a fresh session built only when
  there is none. The \<open>onStreamOnline\<close> handler builds the fresh session whatever the tag
  files hold: for a stored session \<open>s1\<close> with one tag and start time 1000, a went-live
  signal for \<open>s1\<close> with start time 5000 leaves an active session with no tag and start
  time 5000 and overwrites the stored record with it. The start-up path, which goes
  through \<open>getStoredStreamOrNew\<close>, resumes the stored session from the same files.
\<close>

theorem onStreamOnline_stored_record:
  "(let t = \<lparr>timestamp = 61000, relativeTime = ''0h0m45s'', relativeTimestamp = Some 45000,
              moderator = ''mod'', message = ''hello''\<rparr>;
        stored = \<lparr>sid = ''s1'', startTime = 1000, delay = 15, vodDelay = 15, tags = [t]\<rparr>;
        b = \<lparr>stream = None, tagFiles = [''s1'' \<mapsto> stored]\<rparr>;
        b' = snd (onStreamOnline 15 True ''s1'' 5000 b)
    in loadStream (tagFiles b) ''s1'' = Some stored
       \<and> stream b' = Some \<lparr>sid = ''s1'', startTime = 5000, delay = 15, vodDelay = 15, tags = []\<rparr>
       \<and> stream b' \<noteq> Some stored
       \<and> loadStream (tagFiles b') ''s1''
            = Some \<lparr>sid = ''s1'', startTime = 5000, delay = 15, vodDelay = 15, tags = []\<rparr>
       \<and> stream (initializeBot_stream 15 (Inr (Some (''s1'', 5000))) b) = Some stored)"
  by (simp add: Let_def onStreamOnline_def new_Stream_def loadStream_def
      initializeBot_stream_def getStoredStreamOrNew_def)

text \<open>
  C5. Without an active session the \<open>tag\<close> command answers with the error reply and
  changes nothing; with one it computes the offset, appends the tag and starts the write
  of the tag file, and a failure of that write should be harmless. It is not handled at
  all: for a session started at time 0, a delay of 15 s and a tag at time 100000 whose
  write fails, the tag is in the tags held in memory and the reply is sent, but the
  failure is a rejected promise that nothing catches and \<open>warnError\<close> is not called.
\<close>

theorem tagCommand_failed_write:
  "(let s = \<lparr>sid = ''s1'', startTime = 0, delay = 15, vodDelay = 15, tags = []\<rparr>;
        b = \<lparr>stream = Some s, tagFiles = Map.empty\<rparr>;
        tag = \<lparr>timestamp = 100000, relativeTime = ''0h1m25s'', relativeTimestamp = Some 85000,
                moderator = ''mod'', message = ''nice play''\<rparr>
    in tagCommand 15 False 100000 ''mod'' [''nice'', ''play''] b
         = ([ChatReply ''Se ha creado el tag en el minuto 0h1m25s'', UnhandledRejection],
            b\<lparr>stream := Some (s\<lparr>tags := [tag]\<rparr>)\<rparr>)
       \<and> tagCommand 15 True 100000 ''mod'' [''nice'', ''play''] b
         = ([ChatReply ''Se ha creado el tag en el minuto 0h1m25s''],
            b\<lparr>stream := Some (s\<lparr>tags := [tag]\<rparr>),
              tagFiles := [''s1'' \<mapsto> s\<lparr>tags := [tag]\<rparr>]\<rparr>)
       \<and> tagCommand 15 False 100000 ''mod'' [''nice'', ''play''] (b\<lparr>stream := None\<rparr>)
         = ([WarnError ''Error: New tag attempted but there is no stream'',
             ChatReply ''Error: No hay stream''], b\<lparr>stream := None\<rparr>))"
proof -
  have f: "formatRelativeTime (getTimeDifference 100000 0 15) = ''0h1m25s''"
    by (simp add: getTimeDifference_def format_85000)
  show ?thesis
    by (simp add: Let_def tagCommand_def saveStream_def f) (simp add: getTimeDifference_def)
qed

text \<open>
  C6. For a vod whose session has a stored record with no tag, an export should answer
  that no tags were found. The subtitle export does; the deep-link export answers with
  the header of an empty list. For a vod whose session has no stored record both answer
  that no tags were found.
\<close>

theorem tagstwitch_empty_session:
  "(let vod = \<lparr>vid = ''v1'', streamId = Some ''s1'', url = ''https://www.twitch.tv/videos/v1''\<rparr>;
        strm = \<lparr>sid = ''s1'', startTime = 0, delay = 15, vodDelay = 15, tags = []\<rparr>
    in tagstwitch_execute [''v1'' \<mapsto> vod] [''s1'' \<mapsto> strm] ''v1''
         = Text ''Tags del stream (0):\<newline> > ''
       \<and> tagssrt_execute [''v1'' \<mapsto> vod] [''s1'' \<mapsto> strm] ''v1''
         = Text ''El stream no tiene tags.''
       \<and> tagstwitch_execute [''v1'' \<mapsto> vod] Map.empty ''v1''
         = Text ''No se encontraron tags para ese vod.''
       \<and> tagssrt_execute [''v1'' \<mapsto> vod] Map.empty ''v1''
         = Text ''No se encontraron tags para ese vod.'')"
proof -
  have z: "toString 0 = ''0''" by code_simp
  show ?thesis
    by (simp add: Let_def tagstwitch_execute_def tagssrt_execute_def loadStream_def z)
qed

text \<open>
  C10. The subtitle export should recompute the offset of a tag, with delay 0, exactly
  when the tag has no cached offset. A cached offset of 0 is recomputed as well: a tag
  recorded 15 s after the start under a delay of 15 s has the cached offset 0, and is
  exported with the offset 15000.
\<close>

theorem backfill_cached_zero:
  "(let tag = \<lparr>timestamp = 15000, relativeTime = ''0h0m0s'', relativeTimestamp = Some 0,
                moderator = ''mod'', message = ''start''\<rparr>;
        strm = \<lparr>sid = ''s1'', startTime = 0, delay = 15, vodDelay = 15, tags = [tag]\<rparr>;
        vod = \<lparr>vid = ''v1'', streamId = Some ''s1'', url = ''https://www.twitch.tv/videos/v1''\<rparr>
    in getTimeDifference (timestamp tag) (startTime strm) (delay strm) = 0
       \<and> relativeTimestamp tag = Some 0
       \<and> backfill strm tag = 15000
       \<and> tagssrt_execute [''v1'' \<mapsto> vod] [''s1'' \<mapsto> strm] ''v1''
           = Files ''1\<newline>00:00:15,000 --> 00:00:30,000\<newline>start\<newline>\<newline>'')"
proof -
  have f: "formatRelativeTimeWithPadding 15000 = ''00:00:15''"
    "formatRelativeTimeWithPadding 30000 = ''00:00:30''"
    by code_simp code_simp
  have g: "toString 1 = ''1''"
    by code_simp
  show ?thesis
    by (simp add: Let_def backfill_def getTimeDifference_def tagssrt_execute_def
        loadStream_def srtCue_def enumerate_eq_zip f g)
qed


section \<open>UTF-8 and hexadecimal: results\<close>

lemma dec_ascii: "c < 0x80 \<Longrightarrow> utf16_units (c # rest) = c # utf16_units rest"
  by (simp add: utf8_step_def)

lemma dec_two:
  assumes "0x80 \<le> c" "c < 0x800"
  shows "utf16_units ((0xC0 + c div 64) # (0x80 + c mod 64) # rest) = c # utf16_units rest"
proof -
  have a: "2 \<le> c div 64" "c div 64 < 32" using assms by (simp_all add: le_div_geq div_less_iff_less_mult)
  have b: "c mod 64 < 64" by simp
  have c: "c div 64 * 64 + c mod 64 = c" by simp
  show ?thesis using a b c by (simp add: utf8_step_def cont_def)
qed


lemma split3:
  fixes n :: nat
  shows "n div 4096 * 4096 + n div 64 mod 64 * 64 + n mod 64 = n"
proof -
  have "n div 4096 = n div 64 div 64" by (simp add: div_mult2_eq)
  then have "n div 4096 * 64 + n div 64 mod 64 = n div 64" by simp
  then have "n div 4096 * 4096 + n div 64 mod 64 * 64 = n div 64 * 64" by linarith
  then show ?thesis by simp
qed

lemma split4:
  fixes n :: nat
  shows "n div 262144 * 262144 + n div 4096 mod 64 * 4096 + n div 64 mod 64 * 64 + n mod 64 = n"
proof -
  have "n div 262144 = n div 4096 div 64" by (simp add: div_mult2_eq)
  then have "n div 262144 * 64 + n div 4096 mod 64 = n div 4096" by simp
  then have "n div 262144 * 262144 + n div 4096 mod 64 * 4096 = n div 4096 * 4096" by linarith
  then show ?thesis using split3 [of n] by linarith
qed

lemma dec_three:
  assumes "0x800 \<le> c" "c < 0x10000" "\<not> is_high c" "\<not> is_low c"
  shows "utf16_units ((0xE0 + c div 4096) # (0x80 + c div 64 mod 64) # (0x80 + c mod 64) # rest)
           = c # utf16_units rest"
proof -
  define q where "q = c div 4096"
  define m1 where "m1 = c div 64 mod 64"
  define m0 where "m0 = c mod 64"
  have d: "q * 4096 + m1 * 64 + m0 = c" unfolding q_def m1_def m0_def by (rule split3)
  have r: "m1 < 64" "m0 < 64" by (simp_all add: m1_def m0_def)
  have q: "q < 16" using d assms(2) by linarith
  have s: "c < 0xD800 \<or> 0xE000 \<le> c" using assms(3,4) by (auto simp: is_high_def is_low_def)
  have e0: "q = 0 \<Longrightarrow> 32 \<le> m1" using d r assms(1) by linarith
  have ed: "q = 13 \<Longrightarrow> m1 < 32" using d r s by linarith
  have sec: "second3 (0xE0 + q) (0x80 + m1)"
    using e0 ed r by (auto simp: second3_def cont_def)
  show ?thesis
    unfolding q_def [symmetric] m1_def [symmetric] m0_def [symmetric]
    using sec q r d by (simp add: utf8_step_def cont_def)
qed

lemma dec_pair:
  assumes "is_high c" "is_low d"
  shows "utf16_units (utf8_pair c d @ rest) = c # d # utf16_units rest"
proof -
  define cp where "cp = 0x10000 + (c - 0xD800) * 0x400 + (d - 0xDC00)"
  define q where "q = cp div 262144"
  define m2 where "m2 = cp div 4096 mod 64"
  define m1 where "m1 = cp div 64 mod 64"
  define m0 where "m0 = cp mod 64"
  have hc: "0xD800 \<le> c" "c < 0xDC00" and hd: "0xDC00 \<le> d" "d < 0xE000"
    using assms by (simp_all add: is_high_def is_low_def)
  have cpr: "0x10000 \<le> cp" "cp < 0x110000" using hc hd by (simp_all add: cp_def)
  have dd: "q * 262144 + m2 * 4096 + m1 * 64 + m0 = cp"
    unfolding q_def m2_def m1_def m0_def by (rule split4)
  have r: "m2 < 64" "m1 < 64" "m0 < 64" by (simp_all add: m2_def m1_def m0_def)
  have q: "q < 5" using dd cpr by linarith
  have f0: "q = 0 \<Longrightarrow> 16 \<le> m2" using dd r cpr by linarith
  have f4: "q = 4 \<Longrightarrow> m2 < 16" using dd r cpr by linarith
  have sec: "second4 (0xF0 + q) (0x80 + m2)"
    using f0 f4 r by (auto simp: second4_def cont_def)
  have "cp - 0x10000 = (c - 0xD800) * 0x400 + (d - 0xDC00)" by (simp add: cp_def)
  moreover have "d - 0xDC00 < 0x400" using hd by simp
  ultimately have "(cp - 0x10000) div 0x400 = c - 0xD800" "(cp - 0x10000) mod 0x400 = d - 0xDC00"
    by simp_all
  then have sur: "surrogates cp = [c, d]" using hc hd by (simp add: surrogates_def)
  have enc: "utf8_pair c d = [0xF0 + q, 0x80 + m2, 0x80 + m1, 0x80 + m0]"
    by (simp add: utf8_pair_def Let_def cp_def q_def m2_def m1_def m0_def)
  show ?thesis
    unfolding enc using sec q r dd sur by (simp add: utf8_step_def cont_def)
qed

lemma dec_lone:
  "utf16_units (0xEF # 0xBF # 0xBD # rest) = 0xFFFD # utf16_units rest"
  by (simp add: utf8_step_def cont_def second3_def)

lemma dec_unit:
  assumes "c < 0x10000" "\<not> is_high c" "\<not> is_low c"
  shows "utf16_units (utf8_unit c @ rest) = c # utf16_units rest"
  using assms dec_ascii [of c rest] dec_two [of c rest] dec_three [of c rest]
  by (simp add: utf8_unit_def)

lemma utf8_units_roundtrip:
  "well_formed_units cs \<Longrightarrow> \<forall>c \<in> set cs. c < 0x10000 \<Longrightarrow> utf16_units (utf8_units cs) = cs"
proof (induction cs rule: utf8_units.induct)
  case 1
  then show ?case by simp
next
  case (2 c)
  then show ?case using dec_unit [of c "[]"] by simp
next
  case (3 c d ds)
  show ?case
  proof (cases "is_high c \<and> is_low d")
    case True
    then have "well_formed_units ds" using 3(3) by simp
    then have "utf16_units (utf8_units ds) = ds" using 3(1) True 3(4) by simp
    then show ?thesis using True by (simp add: dec_pair)
  next
    case False
    then have w: "\<not> is_high c" "\<not> is_low c" "well_formed_units (d # ds)" using 3(3) by auto
    then have "utf16_units (utf8_units (d # ds)) = d # ds" using 3(2) False 3(4) by simp
    then show ?thesis using False w 3(4) by (simp add: dec_unit)
  qed
qed

lemma utf8_unit_bytes: "c < 0x10000 \<Longrightarrow> \<forall>b \<in> set (utf8_unit c). b < 256"
proof -
  assume c: "c < 0x10000"
  have "c < 0x800 \<Longrightarrow> c div 64 < 32" by simp
  moreover have "c div 4096 < 16" using c by simp
  moreover have "c mod 64 < 64" "c div 64 mod 64 < 64" by simp_all
  ultimately show ?thesis by (auto simp: utf8_unit_def)
qed

lemma utf8_pair_bytes:
  assumes "is_high c" "is_low d"
  shows "\<forall>b \<in> set (utf8_pair c d). b < 256"
proof -
  define cp where "cp = 0x10000 + (c - 0xD800) * 0x400 + (d - 0xDC00)"
  have "c < 0xDC00" "d < 0xE000" using assms by (simp_all add: is_high_def is_low_def)
  then have "cp < 0x110000" by (simp add: cp_def)
  then have "cp div 262144 < 5" by simp
  moreover have "cp mod 64 < 64" "cp div 64 mod 64 < 64" "cp div 4096 mod 64 < 64" by simp_all
  ultimately show ?thesis by (auto simp: utf8_pair_def Let_def cp_def [symmetric])
qed

lemma utf8_units_bytes:
  "\<forall>c \<in> set cs. c < 0x10000 \<Longrightarrow> \<forall>b \<in> set (utf8_units cs). b < 256"
proof (induction cs rule: utf8_units.induct)
  case 1
  then show ?case by simp
next
  case (2 c)
  then show ?case using utf8_unit_bytes [of c] by simp
next
  case (3 c d ds)
  then show ?case using utf8_unit_bytes [of c] utf8_pair_bytes [of c d] by auto
qed

lemma unat_16_bound: "\<forall>c \<in> set (map unat (s :: jsstring)). c < 0x10000"
proof -
  have "unat (w :: 16 word) < 0x10000" for w using unsigned_less [of w, where ?'a = nat] by simp
  then show ?thesis by auto
qed

lemma map_unat_of_nat_bytes:
  "\<forall>b \<in> set ns. b < 256 \<Longrightarrow> map unat (map of_nat ns :: bytes) = ns"
  by (induction ns) (simp_all add: unat_of_nat)

lemma map_of_nat_unat: "map of_nat (map unat (s :: jsstring)) = s"
  by (induction s) simp_all

lemma utf8_roundtrip: "well_formed s \<Longrightarrow> utf8_decode (utf8_encode s) = s"
proof -
  assume w: "well_formed s"
  have "map unat (utf8_encode s) = utf8_units (map unat s)"
    unfolding utf8_encode_def
    by (rule map_unat_of_nat_bytes) (rule utf8_units_bytes [OF unat_16_bound])
  then have "utf8_decode (utf8_encode s) = map of_nat (utf16_units (utf8_units (map unat s)))"
    by (simp add: utf8_decode_def)
  also have "\<dots> = map of_nat (map unat s)"
    using utf8_units_roundtrip [OF _ unat_16_bound, of s] w by (simp add: well_formed_def)
  finally show ?thesis using map_of_nat_unat [of s] by simp
qed

lemma lone_surrogate_replaced: "utf8_decode (utf8_encode [0xD800]) = [0xFFFD]"
  by (simp add: utf8_decode_def utf8_encode_def utf8_unit_def is_high_def utf8_step_def
      cont_def second3_def)

lemma hexval_hexdigit: "n < 16 \<Longrightarrow> hexval (hexdigit n) = Some n"
proof -
  assume "n < 16"
  then have "n \<in> {0, 1, 2, 3, 4, 5, 6, 7, 8, 9, 10, 11, 12, 13, 14, 15}" by simp arith
  then show ?thesis by (auto simp: hexdigit_def hexval_def)
qed

lemma fromHex_toHex: "fromHex (toHex bs) = bs"
proof (induction bs)
  case Nil
  then show ?case by (simp add: toHex_def)
next
  case (Cons b bs)
  have "unat b < 256" using unsigned_less [of b, where ?'a = nat] by simp
  then have d: "unat b div 16 < 16" "unat b mod 16 < 16" by simp_all
  have "16 * (unat b div 16) + unat b mod 16 = unat b" by simp
  then have "(of_nat (16 * (unat b div 16) + unat b mod 16) :: byte) = b" by simp
  then show ?case using Cons d by (simp add: toHex_def hexval_hexdigit)
qed

lemma length_toHex: "length (toHex bs) = 2 * length bs"
  by (induction bs) (simp_all add: toHex_def)

lemma slice_last_app: "length t = n \<Longrightarrow> slice_last n (s @ t) = t"
  by (simp add: slice_last_def)

lemma slice_init_app: "length t = n \<Longrightarrow> slice_init n (s @ t) = s"
  by (simp add: slice_init_def)

section \<open>Credentials: results\<close>

lemma decrypt_encrypt_raw:
  assumes "gcm_correct lib" "length random16 = 16"
  shows "decrypt lib key (fst (encrypt lib key random16 text)) (snd (encrypt lib key random16 text))
           = Inr (utf8_decode (utf8_encode text))"
proof -
  obtain ct tag where s: "gcm_seal lib key random16 (utf8_encode text) = (ct, tag)"
    by (cases "gcm_seal lib key random16 (utf8_encode text)")
  have t: "length tag = 16" and o: "gcm_open lib key random16 ct tag = Some (utf8_encode text)"
    using assms s unfolding gcm_correct_def by (metis fst_conv snd_conv)+
  have l: "length (toHex tag) = 32" using t by (simp add: length_toHex)
  show ?thesis
    using o by (simp add: encrypt_def decrypt_def s Let_def slice_last_app [OF l]
        slice_init_app [OF l] fromHex_toHex)
qed

lemma length_ref_tag: "length (ref_tag key nonce) = 16"
  by (simp add: ref_tag_def)

lemma ref_tag_16: "length nonce = 16 \<Longrightarrow> ref_tag key nonce = map (\<lambda>b. b + ref_mask key) nonce"
  by (simp add: ref_tag_def)

lemma ref_lib_correct: "gcm_correct ref_lib"
  by (simp add: gcm_correct_def ref_lib_def length_ref_tag comp_def)

lemma ref_lib_binds_iv: "gcm_binds_iv ref_lib"
proof -
  have "ref_tag key n \<noteq> ref_tag key n'" if "length n = 16" "length n' = 16" "n \<noteq> n'"
    for key and n n' :: bytes
  proof
    assume "ref_tag key n = ref_tag key n'"
    then have "map (\<lambda>b. b + ref_mask key) n = map (\<lambda>b. b + ref_mask key) n'"
      using that by (simp add: ref_tag_16)
    moreover have "inj (\<lambda>b. b + ref_mask key)" by (simp add: inj_on_def)
    ultimately have "n = n'" by (simp add: inj_map_eq_map)
    then show False using that by simp
  qed
  then show ?thesis by (auto simp: gcm_binds_iv_def ref_lib_def)
qed

lemma decrypt_wrong_iv:
  assumes "gcm_correct lib" "gcm_binds_iv lib"
    and "length r0 = 16" "length r1 = 16" "r0 \<noteq> r1"
  shows "decrypt lib key (fst (encrypt lib key r1 text)) (toHex r0) = Inl DecryptionFailed"
proof -
  obtain ct tag where s: "gcm_seal lib key r1 (utf8_encode text) = (ct, tag)"
    by (cases "gcm_seal lib key r1 (utf8_encode text)")
  have t: "length tag = 16"
    using assms(1,4) s unfolding gcm_correct_def by (metis snd_conv)
  have o: "gcm_open lib key r0 ct tag = None"
    using assms(2-5) s unfolding gcm_binds_iv_def by (metis fst_conv snd_conv)
  have l: "length (toHex tag) = 32" using t by (simp add: length_toHex)
  show ?thesis
    using o by (simp add: encrypt_def decrypt_def s Let_def slice_last_app [OF l]
        slice_init_app [OF l] fromHex_toHex)
qed

lemma saveTokens_storage:
  "TwitchApiClient_saveTokens lib now (r0, r1, r2) True a b e c = Inr c' \<Longrightarrow>
     c' = c\<lparr>tokenStorage := Some \<lparr>iv = toHex r0,
             accessToken = fst (encrypt lib (tokenEncryption c) r1 a),
             refreshToken = fst (encrypt lib (tokenEncryption c) r2 b),
             expiresAt = now + e * 1000\<rparr>\<rparr>"
  by (auto simp: TwitchApiClient_saveTokens_def Let_def)

lemma startup_keeps_initial_tokens:
  assumes "gcm_correct lib" "gcm_binds_iv lib"
    and "length r0 = 16" "length r1 = 16" "r0 \<noteq> r1"
    and "TwitchApiClient_saveTokens lib now (r0, r1, r2) True a b e c = Inr c'"
    and "tokenStorage fresh = tokenStorage c'" "tokenEncryption fresh = tokenEncryption c"
  shows "initializeTokens lib now' run fresh = fresh"
proof -
  have "tokenStorage fresh = Some \<lparr>iv = toHex r0,
             accessToken = fst (encrypt lib (tokenEncryption fresh) r1 a),
             refreshToken = fst (encrypt lib (tokenEncryption fresh) r2 b),
             expiresAt = now + e * 1000\<rparr>"
    using saveTokens_storage [OF assms(6)] assms(7,8) by simp
  then show ?thesis
    using decrypt_wrong_iv [OF assms(1-5), of "tokenEncryption fresh" a]
    by (simp add: initializeTokens_def)
qed

lemma startup_adopts_if_ivs_coincide:
  assumes "gcm_correct lib" "length r = 16" "well_formed a" "well_formed b"
    and "TwitchApiClient_saveTokens lib now (r, r, r) True a b e c = Inr c'"
    and "tokenStorage fresh = tokenStorage c'" "tokenEncryption fresh = tokenEncryption c"
    and "now' < now + e * 1000"
  shows "initializeTokens lib now' run fresh
           = fresh\<lparr>currentToken := a, config_refreshToken := b\<rparr>"
proof -
  have st: "tokenStorage fresh = Some \<lparr>iv = toHex r,
             accessToken = fst (encrypt lib (tokenEncryption fresh) r a),
             refreshToken = fst (encrypt lib (tokenEncryption fresh) r b),
             expiresAt = now + e * 1000\<rparr>"
    using saveTokens_storage [OF assms(5)] assms(6,7) by simp
  have sn: "snd (encrypt lib k r t) = toHex r" for k t
    by (simp add: encrypt_def split: prod.splits)
  have "decrypt lib (tokenEncryption fresh) (fst (encrypt lib (tokenEncryption fresh) r a)) (toHex r)
          = Inr a"
    using decrypt_encrypt_raw [OF assms(1,2), of "tokenEncryption fresh" a] assms(3)
    by (simp add: sn utf8_roundtrip)
  moreover have "decrypt lib (tokenEncryption fresh) (fst (encrypt lib (tokenEncryption fresh) r b)) (toHex r)
          = Inr b"
    using decrypt_encrypt_raw [OF assms(1,2), of "tokenEncryption fresh" b] assms(4)
    by (simp add: sn utf8_roundtrip)
  ultimately show ?thesis using st assms(8) by (simp add: initializeTokens_def)
qed

text \<open>
  C8, as amended. For every string in which no surrogate code unit stands alone, the
  empty string and strings with null characters among them, decrypting what \<open>encrypt\<close>
  returns, with the IV it returns, gives the string back. This holds for every library
  that satisfies \<open>gcm_correct\<close> and every 16 bytes drawn for the IV.
\<close>

theorem decrypt_encrypt_well_formed:
  "gcm_correct lib \<Longrightarrow> length random16 = 16 \<Longrightarrow> well_formed x \<Longrightarrow>
     decrypt lib key (fst (encrypt lib key random16 x)) (snd (encrypt lib key random16 x)) = Inr x"
  using decrypt_encrypt_raw [of lib random16 key x] by (simp add: utf8_roundtrip)

lemma well_formed_examples: "well_formed []" "well_formed [0x61, 0, 0x62]"
  by (simp_all add: well_formed_def is_high_def is_low_def)

theorem decrypt_encrypt_well_formed_witness:
  "gcm_correct ref_lib \<and> length (replicate 16 (7 :: byte)) = 16
   \<and> well_formed [0x61, 0, 0x62] \<and> well_formed []
   \<and> decrypt ref_lib (new_TokenEncryption ref_lib (js ''secret''))
        (fst (encrypt ref_lib (new_TokenEncryption ref_lib (js ''secret''))
                (replicate 16 7) [0x61, 0, 0x62]))
        (snd (encrypt ref_lib (new_TokenEncryption ref_lib (js ''secret''))
                (replicate 16 7) [0x61, 0, 0x62]))
      = Inr [0x61, 0, 0x62]
   \<and> decrypt ref_lib (new_TokenEncryption ref_lib (js ''secret''))
        (fst (encrypt ref_lib (new_TokenEncryption ref_lib (js ''secret''))
                (replicate 16 7) []))
        (snd (encrypt ref_lib (new_TokenEncryption ref_lib (js ''secret''))
                (replicate 16 7) []))
      = Inr []"
proof -
  have l: "length (replicate 16 (7 :: byte)) = 16" by simp
  show ?thesis
    using decrypt_encrypt_well_formed [OF ref_lib_correct l well_formed_examples(2)]
      decrypt_encrypt_well_formed [OF ref_lib_correct l well_formed_examples(1)]
      ref_lib_correct well_formed_examples l
    by blast
qed

text \<open>
  C8, as stated, fails for a string with a lone surrogate: the string of the one code unit
  \<open>D800\<close> is encrypted as the bytes of U+FFFD and decrypts to the string of the one code
  unit \<open>FFFD\<close>.
\<close>

theorem decrypt_encrypt_lone_surrogate:
  "decrypt ref_lib (new_TokenEncryption ref_lib (js ''secret''))
        (fst (encrypt ref_lib (new_TokenEncryption ref_lib (js ''secret''))
                (replicate 16 7) [0xD800]))
        (snd (encrypt ref_lib (new_TokenEncryption ref_lib (js ''secret''))
                (replicate 16 7) [0xD800]))
     = Inr [0xFFFD]
   \<and> [0xFFFD] \<noteq> [0xD800 :: 16 word]"
proof -
  have l: "length (replicate 16 (7 :: byte)) = 16" by simp
  show ?thesis
    using decrypt_encrypt_raw [OF ref_lib_correct l] by (simp add: lone_surrogate_replaced)
qed

lemma saveTokens_only_ciphertext:
  "TwitchApiClient_saveTokens lib now rnd ok a b e c = Inr c' \<Longrightarrow>
     only_ciphertext lib (tokenStorage c')"
proof -
  assume "TwitchApiClient_saveTokens lib now rnd ok a b e c = Inr c'"
  then have "tokenStorage c' = Some \<lparr>iv = toHex (fst rnd),
         accessToken = fst (encrypt lib (tokenEncryption c) (fst (snd rnd)) a),
         refreshToken = fst (encrypt lib (tokenEncryption c) (snd (snd rnd)) b),
         expiresAt = now + e * 1000\<rparr>"
    by (cases rnd) (auto simp: TwitchApiClient_saveTokens_def Let_def split: if_splits)
  then show ?thesis unfolding only_ciphertext_def by (simp, blast)
qed

lemma saveTokens_record:
  "TwitchApiClient_saveTokens lib now rnd ok a b e c = Inr c' \<Longrightarrow>
     tokenStorage c' = Some \<lparr>iv = toHex (fst rnd),
         accessToken = fst (encrypt lib (tokenEncryption c) (fst (snd rnd)) a),
         refreshToken = fst (encrypt lib (tokenEncryption c) (snd (snd rnd)) b),
         expiresAt = now + e * 1000\<rparr>"
  by (cases rnd) (auto simp: TwitchApiClient_saveTokens_def Let_def split: if_splits)

lemma refreshToken_only_ciphertext:
  assumes "only_ciphertext lib (tokenStorage c)"
  shows "only_ciphertext lib (tokenStorage (TwitchApiClient_refreshToken lib run c))"
proof (cases "response run")
  case None
  then show ?thesis
    using assms by (simp add: TwitchApiClient_refreshToken_def scheduleTokenRefresh_def)
next
  case (Some data)
  define c1 where "c1 = c\<lparr>currentToken := access_token data,
                      config_refreshToken := refresh_token data\<rparr>"
  show ?thesis
  proof (cases "TwitchApiClient_saveTokens lib (clock run) (random run) (save_ok run)
                     (access_token data) (refresh_token data) (expires_in data) c1")
    case (Inl e)
    then show ?thesis
      using assms Some
      by (simp add: TwitchApiClient_refreshToken_def scheduleTokenRefresh_def Let_def
          c1_def [symmetric]) (simp add: c1_def)
  next
    case (Inr c2)
    then show ?thesis
      using saveTokens_only_ciphertext [OF Inr] Some
      by (simp add: TwitchApiClient_refreshToken_def scheduleTokenRefresh_def Let_def
          c1_def [symmetric] reconnectWithNewToken_def)
  qed
qed

lemma rotateEncryptionKey_only_ciphertext:
  assumes "only_ciphertext lib (tokenStorage c)"
  shows "only_ciphertext lib (tokenStorage (snd (rotateEncryptionKey lib now rnd ok newKey c)))"
proof -
  define c1 where "c1 = c\<lparr>tokenEncryption := new_TokenEncryption lib newKey\<rparr>"
  show ?thesis
  proof (cases "TwitchApiClient_saveTokens lib now rnd ok (currentToken c1)
                (config_refreshToken c1) (tokenRefreshInterval c1 div 1000) c1")
    case (Inl e)
    then show ?thesis
      using assms by (simp add: rotateEncryptionKey_def Let_def c1_def [symmetric]) (simp add: c1_def)
  next
    case (Inr c2)
    then show ?thesis
      using saveTokens_only_ciphertext [OF Inr]
      by (simp add: rotateEncryptionKey_def Let_def c1_def [symmetric])
  qed
qed

lemma initializeTokens_only_ciphertext:
  assumes "only_ciphertext lib (tokenStorage c)"
  shows "only_ciphertext lib (tokenStorage (initializeTokens lib now run c))"
proof -
  have "tokenStorage (initializeTokens lib now run c) = tokenStorage c
        \<or> initializeTokens lib now run c = TwitchApiClient_refreshToken lib run c"
    by (simp add: initializeTokens_def split: option.splits sum.splits)
  then show ?thesis
    using assms refreshToken_only_ciphertext [OF assms, of run] by auto
qed

text \<open>
  C2, as amended. The operations of \<open>TwitchApiClient\<close> on the token file (a refresh, a
  key rotation, the start-up) keep it free of plaintext: if it holds only ciphertext
  before, it does after, and the record that \<open>saveTokens\<close> writes has the results of
  \<open>encrypt\<close>, under the current key, as its two token fields. \<open>TwitchBot.saveTokens\<close>,
  which stores the tokens of the OAuth exchange and of the refreshes of the authentication
  library, writes the token data as it is.
\<close>

theorem credential_records:
  "(only_ciphertext lib (tokenStorage c) \<longrightarrow>
       only_ciphertext lib (tokenStorage (TwitchApiClient_refreshToken lib run c))
     \<and> only_ciphertext lib (tokenStorage (snd (rotateEncryptionKey lib now rnd ok newKey c)))
     \<and> only_ciphertext lib (tokenStorage (initializeTokens lib now run c)))
   \<and> (TwitchApiClient_saveTokens lib now rnd ok a b e c = Inr c' \<longrightarrow>
        tokenStorage c' = Some \<lparr>iv = toHex (fst rnd),
          accessToken = fst (encrypt lib (tokenEncryption c) (fst (snd rnd)) a),
          refreshToken = fst (encrypt lib (tokenEncryption c) (snd (snd rnd)) b),
          expiresAt = now + e * 1000\<rparr>)
   \<and> TwitchBot_saveTokens True tokenData file = Inr (Some tokenData)"
  using refreshToken_only_ciphertext rotateEncryptionKey_only_ciphertext
    initializeTokens_only_ciphertext saveTokens_record
  by (simp add: TwitchBot_saveTokens_def)

theorem credential_records_witness:
  "only_ciphertext ref_lib (tokenStorage client0)
   \<and> only_ciphertext ref_lib (tokenStorage (TwitchApiClient_refreshToken ref_lib (run0 3600) client0))
   \<and> only_ciphertext ref_lib
       (tokenStorage (snd (rotateEncryptionKey ref_lib 0 draws0 True (js ''other'') client0)))
   \<and> only_ciphertext ref_lib (tokenStorage (initializeTokens ref_lib 0 (run0 3600) client0))
   \<and> TwitchApiClient_saveTokens ref_lib 0 draws0 True (js ''a'') (js ''b'') 3600 client0
       = Inr (client0\<lparr>tokenStorage := Some \<lparr>iv = toHex (fst draws0),
          accessToken = fst (encrypt ref_lib (tokenEncryption client0) (fst (snd draws0)) (js ''a'')),
          refreshToken = fst (encrypt ref_lib (tokenEncryption client0) (snd (snd draws0)) (js ''b'')),
          expiresAt = 0 + 3600 * 1000\<rparr>\<rparr>)"
proof -
  have h: "only_ciphertext ref_lib (tokenStorage client0)"
    by (simp add: client0_def only_ciphertext_def)
  have s: "TwitchApiClient_saveTokens ref_lib 0 draws0 True (js ''a'') (js ''b'') 3600 client0
       = Inr (client0\<lparr>tokenStorage := Some \<lparr>iv = toHex (fst draws0),
          accessToken = fst (encrypt ref_lib (tokenEncryption client0) (fst (snd draws0)) (js ''a'')),
          refreshToken = fst (encrypt ref_lib (tokenEncryption client0) (snd (snd draws0)) (js ''b'')),
          expiresAt = 0 + 3600 * 1000\<rparr>\<rparr>)"
    by (simp add: TwitchApiClient_saveTokens_def draws0_def Let_def)
  show ?thesis
    using h s credential_records [of ref_lib client0 "run0 3600" 0 draws0 True "js ''other''"
        "js ''a''" "js ''b''" 3600]
    by simp
qed

text \<open>
  C2, as stated, fails for \<open>TwitchBot.saveTokens\<close>: after saving the access token
  \<open>abc\<close> and the refresh token \<open>xyz\<close>, \<open>tokens.json\<close> holds these two strings.
\<close>

theorem TwitchBot_saveTokens_plaintext:
  "TwitchBot_saveTokens True
     \<lparr>tw_accessToken = js ''abc'', tw_refreshToken = Some (js ''xyz''),
      tw_expiresIn = Some 14400, tw_obtainmentTimestamp = 0\<rparr> None
   = Inr (Some \<lparr>tw_accessToken = js ''abc'', tw_refreshToken = Some (js ''xyz''),
                 tw_expiresIn = Some 14400, tw_obtainmentTimestamp = 0\<rparr>)"
  by (simp add: TwitchBot_saveTokens_def)

lemma refreshToken_timer:
  "tokenRefreshTimeout (TwitchApiClient_refreshToken lib run c) =
     (case response run of
        None \<Rightarrow> Some 60000
      | Some data \<Rightarrow> if save_ok run then Some ((expires_in data - 300) * 1000) else Some 60000)"
  by (cases "random run")
    (simp add: TwitchApiClient_refreshToken_def TwitchApiClient_saveTokens_def Let_def
      scheduleTokenRefresh_def reconnectWithNewToken_def split: option.splits)

text \<open>
  C9. After a refresh that succeeds with \<open>expires_in = E\<close> the pending timer is set to
  \<open>(E - 300) * 1000\<close> milliseconds, which is 3300000 for \<open>E = 3600\<close>; after a refresh
  that fails, in the exchange or in saving the tokens, it is set to 60000 milliseconds,
  whatever the expiry.
\<close>

theorem refresh_schedule:
  "(response run = Some data \<and> save_ok run \<longrightarrow>
      tokenRefreshTimeout (TwitchApiClient_refreshToken lib run c)
        = Some ((expires_in data - 300) * 1000))
   \<and> (response run = Some data \<and> save_ok run \<and> expires_in data = 3600 \<longrightarrow>
      tokenRefreshTimeout (TwitchApiClient_refreshToken lib run c) = Some 3300000)
   \<and> (response run = None \<or> \<not> save_ok run \<longrightarrow>
      tokenRefreshTimeout (TwitchApiClient_refreshToken lib run c) = Some 60000)"
  by (auto simp: refreshToken_timer split: option.splits)

theorem refresh_schedule_witness:
  "response (run0 3600) = Some \<lparr>access_token = js ''access-1'', refresh_token = js ''refresh-1'',
                               expires_in = 3600\<rparr>
   \<and> save_ok (run0 3600)
   \<and> tokenRefreshTimeout (TwitchApiClient_refreshToken ref_lib (run0 3600) client0) = Some 3300000
   \<and> response ((run0 3600)\<lparr>response := None\<rparr>) = None
   \<and> tokenRefreshTimeout
        (TwitchApiClient_refreshToken ref_lib ((run0 3600)\<lparr>response := None\<rparr>) client0)
       = Some 60000
   \<and> \<not> save_ok ((run0 7200)\<lparr>save_ok := False\<rparr>)
   \<and> tokenRefreshTimeout
        (TwitchApiClient_refreshToken ref_lib ((run0 7200)\<lparr>save_ok := False\<rparr>) client0)
       = Some 60000"
  using refresh_schedule [of "run0 3600"
        "\<lparr>access_token = js ''access-1'', refresh_token = js ''refresh-1'', expires_in = 3600\<rparr>"
        ref_lib client0]
    refresh_schedule [of "(run0 3600)\<lparr>response := None\<rparr>" undefined ref_lib client0]
    refresh_schedule [of "(run0 7200)\<lparr>save_ok := False\<rparr>" undefined ref_lib client0]
  by (simp add: run0_def)

lemma initializeTokens_interval:
  "tokenRefreshInterval (initializeTokens lib now run c) = tokenRefreshInterval c"
  by (cases "random run")
    (simp add: initializeTokens_def TwitchApiClient_refreshToken_def
      TwitchApiClient_saveTokens_def scheduleTokenRefresh_def reconnectWithNewToken_def Let_def
      split: option.splits sum.splits)

lemma constructor_timer:
  "tokenRefreshTimeout (new_TwitchApiClient lib config file now run ok)
     = Some (case cfg_tokenRefreshInterval config of Some ms \<Rightarrow> ms | None \<Rightarrow> 3600000)"
  by (simp add: new_TwitchApiClient_def Let_def scheduleTokenRefresh_def initializeTokens_interval)

lemma constructor_keeps_initial_tokens:
  assumes "gcm_correct lib" "gcm_binds_iv lib"
    and "length r0 = 16" "length r1 = 16" "r0 \<noteq> r1"
    and "TwitchApiClient_saveTokens lib now (r0, r1, r2) True a b e c = Inr c'"
    and "tokenEncryption c = new_TokenEncryption lib (cfg_encryptionKey config)"
  shows "currentToken (new_TwitchApiClient lib config (tokenStorage c') now' run ok)
           = cfg_token config
         \<and> config_refreshToken (new_TwitchApiClient lib config (tokenStorage c') now' run ok)
           = cfg_refreshToken config"
proof -
  define fresh where "fresh = \<lparr>currentToken = cfg_token config,
               config_refreshToken = cfg_refreshToken config,
               tokenRefreshInterval =
                 (case cfg_tokenRefreshInterval config of Some ms \<Rightarrow> ms | None \<Rightarrow> 3600000),
               tokenRefreshTimeout = None,
               tokenEncryption = new_TokenEncryption lib (cfg_encryptionKey config),
               tokenStorage = tokenStorage c', isConnected = False, notified = []\<rparr>"
  have "initializeTokens lib now' run fresh = fresh"
    by (rule startup_keeps_initial_tokens [OF assms(1-6)]) (simp_all add: fresh_def assms(7))
  then show ?thesis
    by (simp add: new_TwitchApiClient_def Let_def fresh_def [symmetric] scheduleTokenRefresh_def)
      (simp add: fresh_def)
qed

text \<open>
  C3. A pair saved with an expiry in the future should be decrypted and adopted by the
  next start-up. \<open>saveTokens\<close> stores an IV of its own, not the IVs under which
  \<open>encrypt\<close> sealed the two tokens, so the start-up decrypts under another IV, the
  decryption is rejected and the client keeps the tokens of its configuration: here the
  pair \<open>access-1\<close>, \<open>refresh-1\<close> is saved at time 0 for 3600 s, and a client
  constructed at time 1000 with the same encryption key and the configured tokens
  \<open>initial\<close>, \<open>initial-refresh\<close> still has those.
\<close>

theorem startup_after_save:
  "(case TwitchApiClient_saveTokens ref_lib 0 draws0 True (js ''access-1'') (js ''refresh-1'')
           3600 (client0\<lparr>currentToken := js ''access-1'',
                          config_refreshToken := js ''refresh-1''\<rparr>) of
      Inl _ \<Rightarrow> False
    | Inr c' \<Rightarrow>
        (let started = new_TwitchApiClient ref_lib config0 (tokenStorage c') 1000 (run0 3600) True
         in map_option expiresAt (tokenStorage c') = Some 3600000
            \<and> tokenEncryption started = tokenEncryption c'
            \<and> currentToken started = js ''initial''
            \<and> config_refreshToken started = js ''initial-refresh''
            \<and> currentToken started \<noteq> js ''access-1''))"
proof -
  define c where "c = client0\<lparr>currentToken := js ''access-1'',
                          config_refreshToken := js ''refresh-1''\<rparr>"
  obtain c' where s: "TwitchApiClient_saveTokens ref_lib 0
      (replicate 16 1, replicate 16 2, replicate 16 3)
      True (js ''access-1'') (js ''refresh-1'') 3600 c = Inr c'"
    by (simp add: TwitchApiClient_saveTokens_def Let_def)
  have ne: "replicate 16 (1 :: byte) \<noteq> replicate 16 2" by (simp add: replicate_eq_replicate)
  have k: "tokenEncryption c = new_TokenEncryption ref_lib (cfg_encryptionKey config0)"
    by (simp add: c_def client0_def config0_def)
  have t: "currentToken (new_TwitchApiClient ref_lib config0 (tokenStorage c') 1000 (run0 3600) True)
           = cfg_token config0
         \<and> config_refreshToken (new_TwitchApiClient ref_lib config0 (tokenStorage c') 1000 (run0 3600) True)
           = cfg_refreshToken config0"
    by (rule constructor_keeps_initial_tokens [OF ref_lib_correct ref_lib_binds_iv _ _ ne s k])
      simp_all
  have e: "map_option expiresAt (tokenStorage c') = Some 3600000"
    using saveTokens_storage [OF s] by simp
  have ke: "tokenEncryption (new_TwitchApiClient ref_lib config0 (tokenStorage c') 1000 (run0 3600) True)
      = tokenEncryption c'"
  proof -
    have "tokenEncryption (initializeTokens lib now run x) = tokenEncryption x" for lib now run x
      by (cases "random run")
        (simp add: initializeTokens_def TwitchApiClient_refreshToken_def
          TwitchApiClient_saveTokens_def scheduleTokenRefresh_def reconnectWithNewToken_def Let_def
          split: option.splits sum.splits)
    then show ?thesis
      using saveTokens_storage [OF s] k
      by (simp add: new_TwitchApiClient_def Let_def scheduleTokenRefresh_def)
  qed
  have "js ''initial'' \<noteq> js ''access-1''" by (simp add: js_def)
  then show ?thesis
    using s t e ke by (simp add: c_def [symmetric] draws0_def Let_def config0_def)
qed


end
